theory Spec2Isabelle
  imports Main "HOL-Library.Word"
begin

unbundle bit_operations_syntax

section \<open>Primitive types shared by the domain layer\<close>

text \<open>
  Go's \<open>time.Time\<close> is modelled as an instant on an integer time line (nanoseconds);
  \<open>time.Duration\<close> is a signed number of nanoseconds. \<open>t.After(u)\<close> is the strict
  order \<open>u < t\<close>, \<open>t.Add(d)\<close> is \<open>t + d\<close>, and the zero \<open>time.Time{}\<close> is the
  instant \<open>0\<close>. Every call of \<open>time.Now()\<close> in the source becomes an explicit
  parameter \<open>now\<close> of the embedded function.
\<close>

type_synonym time = int
type_synonym Duration = int
type_synonym byte = "8 word"

definition After :: "time \<Rightarrow> time \<Rightarrow> bool" where
  "After t u = (u < t)"

definition Add :: "time \<Rightarrow> Duration \<Rightarrow> time" where
  "Add t d = t + d"

definition IsZero :: "time \<Rightarrow> bool" where
  "IsZero t = (t = 0)"

text \<open>\<open>uuid.UUID\<close> is the fixed-size array \<open>[16]byte\<close>.\<close>

datatype uuid = UUID byte byte byte byte byte byte byte byte
                     byte byte byte byte byte byte byte byte

definition Nil_uuid :: uuid where
  "Nil_uuid = UUID 0 0 0 0 0 0 0 0 0 0 0 0 0 0 0 0"

text \<open>
  Values of Go's empty interface \<open>interface{}\<close>: the dynamic types that the
  converters, the metadata maps and the event payloads of this repository
  distinguish.
\<close>

datatype iface =
    IfNil
  | IfBool bool
  | IfInt "64 word"
  | IfInt64 "64 word"
  | IfString string
  | IfBytes "byte list"
  | IfUUID uuid
  | IfTime time
  | IfStrings "string list"
  | IfMap "(string \<times> iface) list"

section \<open>Domain errors (entities/errors.go, converters/types.go)\<close>

datatype error =
    ValidationError string string
  | NotFoundError string string
  | ConflictError string string
  | AuthenticationError string
  | AuthorizationError string
  | InternalError string
  | ConversionError string iface
  | LibraryError string
  | Wrapped string error

definition ErrInvalidEmail :: error where
  "ErrInvalidEmail = ValidationError ''email'' ''must be a valid email address''"
definition ErrInvalidUsername :: error where
  "ErrInvalidUsername = ValidationError ''username'' ''must be 3-50 characters''"
definition ErrInvalidPasswordHash :: error where
  "ErrInvalidPasswordHash = ValidationError ''password_hash'' ''must be a valid hash''"
definition ErrInvalidFirstName :: error where
  "ErrInvalidFirstName = ValidationError ''first_name'' ''must not be empty''"
definition ErrInvalidLastName :: error where
  "ErrInvalidLastName = ValidationError ''last_name'' ''must not be empty''"
definition ErrInvalidUserStatus :: error where
  "ErrInvalidUserStatus = ValidationError ''status'' ''must be a valid user status''"
definition ErrInvalidUserRole :: error where
  "ErrInvalidUserRole = ValidationError ''role'' ''must be a valid user role''"
definition ErrUserAlreadyExists :: error where
  "ErrUserAlreadyExists = ConflictError ''user'' ''user already exists''"
definition ErrInvalidCredentials :: error where
  "ErrInvalidCredentials = AuthenticationError ''invalid credentials''"
definition ErrAccountSuspended :: error where
  "ErrAccountSuspended = AuthorizationError ''account suspended''"
definition ErrAccountInactive :: error where
  "ErrAccountInactive = AuthorizationError ''account inactive''"

definition NewConversionError :: "string \<Rightarrow> iface \<Rightarrow> error" where
  "NewConversionError message v = ConversionError message v"

section \<open>User sessions (entities, session file)\<close>

type_synonym SessionID = "64 word"
type_synonym UserID = "64 word"
type_synonym SessionToken = uuid

record SessionDeviceInfo =
  Platform :: string
  Device :: string
  Browser :: string
  Version :: string
  Metadata :: "(string \<times> iface) list"

record UserSession =
  id_s :: SessionID
  userID :: UserID
  token :: SessionToken
  deviceInfo :: SessionDeviceInfo
  ipAddress :: "byte list"
  userAgent :: string
  createdAt_s :: time
  expiresAt :: time
  isActive :: bool

text \<open>
  \<open>NewUserSession\<close>: \<open>now\<close> is the reading of \<open>time.Now()\<close> and \<open>tok\<close> the
  result of \<open>NewSessionToken()\<close>; the identifier keeps Go's zero value.
\<close>

definition NewUserSession ::
  "time \<Rightarrow> SessionToken \<Rightarrow> UserID \<Rightarrow> byte list \<Rightarrow> string \<Rightarrow> SessionDeviceInfo \<Rightarrow> Duration
   \<Rightarrow> UserSession" where
  "NewUserSession now tok uid ip ua di duration =
     \<lparr> id_s = 0, userID = uid, token = tok, deviceInfo = di, ipAddress = ip,
       userAgent = ua, createdAt_s = now, expiresAt = Add now duration, isActive = True \<rparr>"

definition IsExpired :: "time \<Rightarrow> UserSession \<Rightarrow> bool" where
  "IsExpired now s = After now (expiresAt s)"

definition UserSession_IsValid :: "time \<Rightarrow> UserSession \<Rightarrow> bool" where
  "UserSession_IsValid now s = (isActive s \<and> \<not> IsExpired now s)"

definition Deactivate :: "UserSession \<Rightarrow> UserSession" where
  "Deactivate s = s\<lparr> isActive := False \<rparr>"

definition Extend :: "time \<Rightarrow> Duration \<Rightarrow> UserSession \<Rightarrow> UserSession" where
  "Extend now duration s = s\<lparr> expiresAt := Add now duration \<rparr>"

definition SessionDurationShort :: Duration where
  "SessionDurationShort = 24 * 3600000000000"
definition SessionDurationMedium :: Duration where
  "SessionDurationMedium = 7 * 24 * 3600000000000"

definition NewSessionDeviceInfo :: SessionDeviceInfo where
  "NewSessionDeviceInfo =
     \<lparr> Platform = [], Device = [], Browser = [], Version = [], Metadata = [] \<rparr>"

section \<open>Session validity\<close>

lemma UserSession_IsValid_iff:
  "UserSession_IsValid now s \<longleftrightarrow> isActive s \<and> now \<le> expiresAt s"
  by (auto simp: UserSession_IsValid_def IsExpired_def After_def)

lemma NewUserSession_invalid_after_duration:
  "Add now0 d < now \<Longrightarrow>
   \<not> UserSession_IsValid now (NewUserSession now0 tok uid ip ua di d)"
  by (simp add: UserSession_IsValid_iff NewUserSession_def)

text \<open>
  Claim C1. The claim reads: a session is valid if and only if it is active and
  the current time is strictly before its expiry. The source tests
  \<open>!time.Now().After(expiresAt)\<close>, so at the very instant of expiry an active
  session is still reported valid, although the current time is not strictly
  before the expiry. The theorem evaluates the code at that instant for a session
  created at instant 1000 with duration 500.
\<close>

theorem UserSession_IsValid_at_expiry_instant:
  "UserSession_IsValid 1500
       (NewUserSession 1000 Nil_uuid 7 [127, 0, 0, 1] ''agent'' NewSessionDeviceInfo 500)
   \<and> \<not> (isActive (NewUserSession 1000 Nil_uuid 7 [127, 0, 0, 1] ''agent'' NewSessionDeviceInfo 500)
         \<and> 1500 < expiresAt (NewUserSession 1000 Nil_uuid 7 [127, 0, 0, 1] ''agent'' NewSessionDeviceInfo 500))"
  by (simp add: UserSession_IsValid_iff NewUserSession_def Add_def)

text \<open>
  Claim C10. \<open>Deactivate\<close> clears the active flag and leaves every other field of
  the session as it was; \<open>Extend d\<close> replaces the expiry by the current time plus
  \<open>d\<close> (whatever the previous expiry was) and leaves every other field as it was.
  In particular the token is the same after either operation.
\<close>

theorem Deactivate_Extend_frame:
  "Deactivate s = s\<lparr> isActive := False \<rparr>
   \<and> isActive (Deactivate s) = False
   \<and> token (Deactivate s) = token s
   \<and> userID (Deactivate s) = userID s
   \<and> expiresAt (Deactivate s) = expiresAt s
   \<and> createdAt_s (Deactivate s) = createdAt_s s
   \<and> deviceInfo (Deactivate s) = deviceInfo s
   \<and> id_s (Deactivate s) = id_s s
   \<and> ipAddress (Deactivate s) = ipAddress s
   \<and> userAgent (Deactivate s) = userAgent s
   \<and> Extend now d s = s\<lparr> expiresAt := now + d \<rparr>
   \<and> expiresAt (Extend now d s) = now + d
   \<and> token (Extend now d s) = token s
   \<and> userID (Extend now d s) = userID s
   \<and> isActive (Extend now d s) = isActive s
   \<and> createdAt_s (Extend now d s) = createdAt_s s
   \<and> deviceInfo (Extend now d s) = deviceInfo s
   \<and> id_s (Extend now d s) = id_s s
   \<and> ipAddress (Extend now d s) = ipAddress s
   \<and> userAgent (Extend now d s) = userAgent s"
  by (simp add: Deactivate_def Extend_def Add_def)

section \<open>Domain events and the in-memory publisher (events file)\<close>

type_synonym EventType = string

definition EventUserCreated :: EventType where "EventUserCreated = ''user.created''"
definition EventUserUpdated :: EventType where "EventUserUpdated = ''user.updated''"
definition EventUserLogin :: EventType where "EventUserLogin = ''user.login''"
definition EventUserLoginFail :: EventType where "EventUserLoginFail = ''user.login.failed''"
definition EventRoleChanged :: EventType where "EventRoleChanged = ''role.changed''"

text \<open>
  The payload structs. \<open>UserCreatedEvent\<close>: UserID, Email, Username, FirstName,
  LastName, Role, Status. \<open>UserUpdatedEvent\<close>: UserID, Changes, UpdatedBy.
  \<open>UserLoginEvent\<close>: UserID, IPAddress, UserAgent, Device, Success.
  \<open>RoleChangedEvent\<close>: UserID, OldRole, NewRole, ChangedBy.
\<close>

datatype EventData =
    UserCreatedEvent string string string string string string string
  | UserUpdatedEvent string "(string \<times> iface) list" string
  | UserLoginEvent string string string string bool
  | RoleChangedEvent string string string string

record UserEvent =
  ev_ID :: string
  ev_Type :: EventType
  ev_UserID :: string
  ev_Data :: EventData
  ev_Timestamp :: time
  ev_Version :: string

text \<open>
  \<open>NewUserEvent\<close>: \<open>eid\<close> is the string of the fresh \<open>uuid.New()\<close> and \<open>now\<close> the
  reading of \<open>time.Now()\<close>.
\<close>

definition NewUserEvent :: "string \<Rightarrow> time \<Rightarrow> EventType \<Rightarrow> string \<Rightarrow> EventData \<Rightarrow> UserEvent" where
  "NewUserEvent eid now eventType uid data =
     \<lparr> ev_ID = eid, ev_Type = eventType, ev_UserID = uid, ev_Data = data,
       ev_Timestamp = now, ev_Version = ''1.0'' \<rparr>"

definition UserCreated ::
  "string \<Rightarrow> time \<Rightarrow> string \<Rightarrow> string \<Rightarrow> string \<Rightarrow> string \<Rightarrow> string \<Rightarrow> string \<Rightarrow> string \<Rightarrow> UserEvent" where
  "UserCreated eid now uid em un fn ln rl st =
     NewUserEvent eid now EventUserCreated uid (UserCreatedEvent uid em un fn ln rl st)"

definition UserUpdated ::
  "string \<Rightarrow> time \<Rightarrow> string \<Rightarrow> (string \<times> iface) list \<Rightarrow> string \<Rightarrow> UserEvent" where
  "UserUpdated eid now uid changes updatedBy =
     NewUserEvent eid now EventUserUpdated uid (UserUpdatedEvent uid changes updatedBy)"

definition UserLoggedIn :: "string \<Rightarrow> time \<Rightarrow> string \<Rightarrow> string \<Rightarrow> string \<Rightarrow> string \<Rightarrow> UserEvent" where
  "UserLoggedIn eid now uid ip ua device =
     NewUserEvent eid now EventUserLogin uid (UserLoginEvent uid ip ua device True)"

definition UserLoginFailed :: "string \<Rightarrow> time \<Rightarrow> string \<Rightarrow> string \<Rightarrow> string \<Rightarrow> string \<Rightarrow> UserEvent" where
  "UserLoginFailed eid now uid ip ua device =
     NewUserEvent eid now EventUserLoginFail uid (UserLoginEvent uid ip ua device False)"

record InMemoryEventPublisher =
  events :: "UserEvent list"

definition NewInMemoryEventPublisher :: InMemoryEventPublisher where
  "NewInMemoryEventPublisher = \<lparr> events = [] \<rparr>"

text \<open>Each method returns the updated publisher and the Go \<open>error\<close> result (\<open>None\<close> is \<open>nil\<close>).\<close>

definition Publish :: "InMemoryEventPublisher \<Rightarrow> UserEvent \<Rightarrow> InMemoryEventPublisher \<times> error option" where
  "Publish p event = (p\<lparr> events := events p @ [event] \<rparr>, None)"

definition PublishBatch ::
  "InMemoryEventPublisher \<Rightarrow> UserEvent list \<Rightarrow> InMemoryEventPublisher \<times> error option" where
  "PublishBatch p evs = (p\<lparr> events := events p @ evs \<rparr>, None)"

definition Events :: "InMemoryEventPublisher \<Rightarrow> UserEvent list" where
  "Events p = events p"

text \<open>A sequence of calls on one publisher, with the list of the results it returned.\<close>

datatype PublisherCall = CallPublish UserEvent | CallPublishBatch "UserEvent list"

fun published_by :: "PublisherCall \<Rightarrow> UserEvent list" where
  "published_by (CallPublish e) = [e]"
| "published_by (CallPublishBatch es) = es"

fun run_call :: "InMemoryEventPublisher \<Rightarrow> PublisherCall \<Rightarrow> InMemoryEventPublisher \<times> error option" where
  "run_call p (CallPublish e) = Publish p e"
| "run_call p (CallPublishBatch es) = PublishBatch p es"

fun run_calls ::
  "InMemoryEventPublisher \<Rightarrow> PublisherCall list \<Rightarrow> InMemoryEventPublisher \<times> error option list" where
  "run_calls p [] = (p, [])"
| "run_calls p (c # cs) =
     (case run_call p c of (p', r) \<Rightarrow>
        (case run_calls p' cs of (p'', rs) \<Rightarrow> (p'', r # rs)))"

lemma run_call_result: "run_call p c = (p\<lparr> events := events p @ published_by c \<rparr>, None)"
  by (cases c) (simp_all add: Publish_def PublishBatch_def)

lemma run_calls_result:
  "run_calls p cs =
     (p\<lparr> events := events p @ concat (map published_by cs) \<rparr>, replicate (length cs) None)"
proof (induction cs arbitrary: p)
  case Nil
  show ?case by simp
next
  case (Cons c cs)
  show ?case by (simp add: run_call_result Cons.IH)
qed

text \<open>
  Claim C9. \<open>Publish\<close> and \<open>PublishBatch\<close> of the in-memory publisher return nil
  for every event and every batch, in every state of the publisher; after any
  sequence of such calls on a new publisher every call has returned nil and
  \<open>Events()\<close> is exactly the published events in the order of publication (from a
  publisher that already holds events, they follow the earlier ones).
\<close>

theorem InMemoryEventPublisher_never_fails_keeps_order:
  "snd (Publish p e) = None
   \<and> snd (PublishBatch p es) = None
   \<and> snd (run_calls p cs) = replicate (length cs) None
   \<and> Events (fst (run_calls p cs)) = Events p @ concat (map published_by cs)
   \<and> Events (fst (run_calls NewInMemoryEventPublisher cs)) = concat (map published_by cs)"
  by (simp add: run_calls_result Publish_def PublishBatch_def Events_def
      NewInMemoryEventPublisher_def)

section \<open>Value objects and the User entity (entities/user.go)\<close>

text \<open>
  Go strings are byte strings, and so is \<open>string\<close> here (\<open>len\<close> is \<open>length\<close>).
  \<open>strings.TrimSpace\<close> and \<open>strings.ToLower\<close> belong to Go's standard library;
  they are modelled on ASCII text: the white space is tab, line feed, vertical
  tab, form feed, carriage return and space, and the letters \<open>A\<close> to \<open>Z\<close> are
  lowered. Bytes outside ASCII are kept as they are.
\<close>

definition isSpace :: "char \<Rightarrow> bool" where
  "isSpace c = (let n = (of_char c :: nat) in (9 \<le> n \<and> n \<le> 13) \<or> n = 32)"

definition TrimSpace :: "string \<Rightarrow> string" where
  "TrimSpace s = rev (dropWhile isSpace (rev (dropWhile isSpace s)))"

definition toLowerChar :: "char \<Rightarrow> char" where
  "toLowerChar c =
     (let n = (of_char c :: nat) in if 65 \<le> n \<and> n \<le> 90 then char_of (n + 32) else c)"

definition ToLower :: "string \<Rightarrow> string" where
  "ToLower s = map toLowerChar s"

type_synonym Email = string
type_synonym Username = string
type_synonym PasswordHash = string
type_synonym FirstName = string
type_synonym LastName = string
type_synonym UserStatus = string
type_synonym UserRole = string
type_synonym UserMetadata = "(string \<times> iface) list"

text \<open>
  \<open>NewEmail\<close> calls \<open>isValidEmail\<close>, a helper that none of the repository's files
  defines; it is a parameter of the embedding.
\<close>

definition NewEmail :: "(string \<Rightarrow> bool) \<Rightarrow> string \<Rightarrow> error + Email" where
  "NewEmail isValidEmail email =
     (if \<not> isValidEmail email then Inl ErrInvalidEmail
      else Inr (ToLower (TrimSpace email)))"

definition NewUsername :: "string \<Rightarrow> error + Username" where
  "NewUsername username =
     (if length username < 3 \<or> length username > 50 then Inl ErrInvalidUsername
      else Inr (TrimSpace username))"

definition NewPasswordHash :: "string \<Rightarrow> error + PasswordHash" where
  "NewPasswordHash hash = (if length hash < 32 then Inl ErrInvalidPasswordHash else Inr hash)"

definition NewFirstName :: "string \<Rightarrow> error + FirstName" where
  "NewFirstName name0 =
     (let name = TrimSpace name0 in
      if length name = 0 then Inl ErrInvalidFirstName else Inr name)"

definition NewLastName :: "string \<Rightarrow> error + LastName" where
  "NewLastName name0 =
     (let name = TrimSpace name0 in
      if length name = 0 then Inl ErrInvalidLastName else Inr name)"

definition UserStatusActive :: UserStatus where "UserStatusActive = ''active''"
definition UserStatusInactive :: UserStatus where "UserStatusInactive = ''inactive''"
definition UserStatusSuspended :: UserStatus where "UserStatusSuspended = ''suspended''"
definition UserStatusPending :: UserStatus where "UserStatusPending = ''pending''"

definition UserStatus_IsValid :: "UserStatus \<Rightarrow> bool" where
  "UserStatus_IsValid s =
     (if s = UserStatusActive \<or> s = UserStatusInactive \<or> s = UserStatusSuspended
         \<or> s = UserStatusPending then True else False)"

definition UserRoleUser :: UserRole where "UserRoleUser = ''user''"
definition UserRoleAdmin :: UserRole where "UserRoleAdmin = ''admin''"
definition UserRoleModerator :: UserRole where "UserRoleModerator = ''moderator''"

definition UserRole_IsValid :: "UserRole \<Rightarrow> bool" where
  "UserRole_IsValid r =
     (if r = UserRoleUser \<or> r = UserRoleAdmin \<or> r = UserRoleModerator then True else False)"

record User =
  id_u :: UserID
  uuid_u :: uuid
  email :: Email
  username :: Username
  password :: PasswordHash
  firstName :: FirstName
  lastName :: LastName
  status :: UserStatus
  role :: UserRole
  isVerified :: bool
  metadata :: UserMetadata
  tags :: "string list"
  createdAt :: time
  updatedAt :: time
  lastLoginAt :: "time option"

text \<open>\<open>NewUser\<close>: \<open>now\<close> is \<open>time.Now()\<close> and \<open>fresh\<close> is \<open>uuid.New()\<close>.\<close>

definition NewUser ::
  "time \<Rightarrow> uuid \<Rightarrow> Email \<Rightarrow> Username \<Rightarrow> PasswordHash \<Rightarrow> FirstName \<Rightarrow> LastName \<Rightarrow> UserStatus
   \<Rightarrow> UserRole \<Rightarrow> UserMetadata \<Rightarrow> string list \<Rightarrow> error + User" where
  "NewUser now fresh em un pw fn ln st rl md tgs =
     (if \<not> UserStatus_IsValid st then Inl ErrInvalidUserStatus
      else if \<not> UserRole_IsValid rl then Inl ErrInvalidUserRole
      else Inr \<lparr> id_u = 0, uuid_u = fresh, email = em, username = un, password = pw,
                 firstName = fn, lastName = ln, status = st, role = rl, isVerified = False,
                 metadata = md, tags = tgs, createdAt = now, updatedAt = now,
                 lastLoginAt = None \<rparr>)"

definition User_IsActive :: "User \<Rightarrow> bool" where
  "User_IsActive u = (status u = UserStatusActive)"

text \<open>
  The mutators work on \<open>*User\<close>; each returns the user after the call, and those
  that return an \<open>error\<close> in Go return it beside the user (\<open>None\<close> is \<open>nil\<close>).
  A nil pointer argument of \<open>UpdateProfile\<close> is \<open>None\<close>.
\<close>

definition UpdateProfile ::
  "time \<Rightarrow> FirstName option \<Rightarrow> LastName option \<Rightarrow> UserMetadata option \<Rightarrow> string list option
   \<Rightarrow> User \<Rightarrow> User \<times> error option" where
  "UpdateProfile now fn ln md tgs u =
     (let u1 = (case fn of None \<Rightarrow> u | Some f \<Rightarrow> u\<lparr> firstName := f \<rparr>);
          u2 = (case ln of None \<Rightarrow> u1 | Some l \<Rightarrow> u1\<lparr> lastName := l \<rparr>);
          u3 = (case md of None \<Rightarrow> u2 | Some m \<Rightarrow> u2\<lparr> metadata := m \<rparr>);
          u4 = (case tgs of None \<Rightarrow> u3 | Some t \<Rightarrow> u3\<lparr> tags := t \<rparr>)
      in (u4\<lparr> updatedAt := now \<rparr>, None))"

definition ChangeStatus :: "time \<Rightarrow> UserStatus \<Rightarrow> User \<Rightarrow> User \<times> error option" where
  "ChangeStatus now st u =
     (if \<not> UserStatus_IsValid st then (u, Some ErrInvalidUserStatus)
      else (u\<lparr> status := st, updatedAt := now \<rparr>, None))"

definition ChangeRole :: "time \<Rightarrow> UserRole \<Rightarrow> User \<Rightarrow> User \<times> error option" where
  "ChangeRole now rl u =
     (if \<not> UserRole_IsValid rl then (u, Some ErrInvalidUserRole)
      else (u\<lparr> role := rl, updatedAt := now \<rparr>, None))"

definition Verify :: "time \<Rightarrow> User \<Rightarrow> User" where
  "Verify now u = u\<lparr> isVerified := True, updatedAt := now \<rparr>"

definition RecordLogin :: "time \<Rightarrow> User \<Rightarrow> User" where
  "RecordLogin now u = u\<lparr> lastLoginAt := Some now, updatedAt := now \<rparr>"

text \<open>The loop of \<open>AddTag\<close>: is some existing tag equal to the new one.\<close>

fun tagPresent :: "string \<Rightarrow> string list \<Rightarrow> bool" where
  "tagPresent tag [] = False"
| "tagPresent tag (existingTag # rest) = (if existingTag = tag then True else tagPresent tag rest)"

definition AddTag :: "time \<Rightarrow> string \<Rightarrow> User \<Rightarrow> User" where
  "AddTag now tag u =
     (if tagPresent tag (tags u) then u
      else u\<lparr> tags := tags u @ [tag], updatedAt := now \<rparr>)"

text \<open>
  The loop of \<open>RemoveTag\<close>: at the first index \<open>i\<close> whose tag is equal, the result
  is \<open>tags[:i]\<close> followed by \<open>tags[i+1:]\<close>; \<open>None\<close> when the loop ends without a match.
\<close>

fun removeFirstTag :: "string \<Rightarrow> string list \<Rightarrow> string list option" where
  "removeFirstTag tag [] = None"
| "removeFirstTag tag (existingTag # rest) =
     (if existingTag = tag then Some rest
      else (case removeFirstTag tag rest of None \<Rightarrow> None | Some r \<Rightarrow> Some (existingTag # r)))"

definition RemoveTag :: "time \<Rightarrow> string \<Rightarrow> User \<Rightarrow> User" where
  "RemoveTag now tag u =
     (case removeFirstTag tag (tags u) of
        None \<Rightarrow> u
      | Some ts \<Rightarrow> u\<lparr> tags := ts, updatedAt := now \<rparr>)"

lemma tagPresent_iff: "tagPresent tag ts \<longleftrightarrow> tag \<in> set ts"
  by (induction ts) auto

lemma removeFirstTag_None_iff: "removeFirstTag tag ts = None \<longleftrightarrow> tag \<notin> set ts"
  by (induction ts) (auto split: option.splits)

lemma removeFirstTag_Some:
  "tag \<in> set ts \<Longrightarrow> \<exists>r. removeFirstTag tag ts = Some r \<and> length r < length ts"
  by (induction ts) (auto split: option.splits)

text \<open>The user of the unit test \<open>TestUserMethods\<close>, created at instant 10 with one tag.\<close>

definition test_user :: User where
  "test_user =
     \<lparr> id_u = 0, uuid_u = Nil_uuid, email = ''test@example.com'', username = ''testuser'',
       password = ''hashedpassword'', firstName = ''John'', lastName = ''Doe'',
       status = UserStatusActive, role = UserRoleUser, isVerified = False, metadata = [],
       tags = [''test''], createdAt = 10, updatedAt = 10, lastLoginAt = None \<rparr>"

section \<open>Mutators of the User entity\<close>

lemma AddTag_updatedAt: "tag \<notin> set (tags u) \<Longrightarrow> updatedAt (AddTag now tag u) = now"
  by (simp add: AddTag_def tagPresent_iff)

lemma RemoveTag_updatedAt: "tag \<in> set (tags u) \<Longrightarrow> updatedAt (RemoveTag now tag u) = now"
  using removeFirstTag_Some [of tag "tags u"] by (auto simp: RemoveTag_def)

lemma AddTag_not_older: "updatedAt u \<le> now \<Longrightarrow> updatedAt u \<le> updatedAt (AddTag now tag u)"
  by (simp add: AddTag_def)

lemma RemoveTag_not_older: "updatedAt u \<le> now \<Longrightarrow> updatedAt u \<le> updatedAt (RemoveTag now tag u)"
  by (simp add: RemoveTag_def split: option.splits)

lemma UpdateProfile_updatedAt: "updatedAt (fst (UpdateProfile now fn ln md tgs u)) = now"
  by (simp add: UpdateProfile_def Let_def)

text \<open>
  Claim C8. Whenever one of \<open>ChangeStatus\<close>, \<open>ChangeRole\<close>, \<open>UpdateProfile\<close>,
  \<open>Verify\<close>, \<open>RecordLogin\<close>, \<open>AddTag\<close>, \<open>RemoveTag\<close> performs its mutation
  (a valid target for the two enum changes, an absent tag for \<open>AddTag\<close>, a present
  tag for \<open>RemoveTag\<close>, always for the others), \<open>updatedAt\<close> afterwards is the time
  of the call; so when the clock does not run backwards, \<open>updatedAt\<close> is never
  older after any of these calls than before. \<open>ChangeStatus\<close> and \<open>ChangeRole\<close>
  with a value outside the enum return \<open>ErrInvalidUserStatus\<close> and
  \<open>ErrInvalidUserRole\<close> and leave the user as it was.
\<close>

theorem User_mutators_bump_updatedAt:
  "updatedAt (fst (UpdateProfile now fn ln md tgs u)) = now
   \<and> (UserStatus_IsValid st \<longrightarrow>
        ChangeStatus now st u = (u\<lparr> status := st, updatedAt := now \<rparr>, None)
        \<and> updatedAt (fst (ChangeStatus now st u)) = now)
   \<and> (UserRole_IsValid rl \<longrightarrow>
        ChangeRole now rl u = (u\<lparr> role := rl, updatedAt := now \<rparr>, None)
        \<and> updatedAt (fst (ChangeRole now rl u)) = now)
   \<and> updatedAt (Verify now u) = now
   \<and> updatedAt (RecordLogin now u) = now
   \<and> (tag \<notin> set (tags u) \<longrightarrow> updatedAt (AddTag now tag u) = now)
   \<and> (tag \<in> set (tags u) \<longrightarrow> updatedAt (RemoveTag now tag u) = now)
   \<and> (\<not> UserStatus_IsValid st \<longrightarrow> ChangeStatus now st u = (u, Some ErrInvalidUserStatus))
   \<and> (\<not> UserRole_IsValid rl \<longrightarrow> ChangeRole now rl u = (u, Some ErrInvalidUserRole))
   \<and> (updatedAt u \<le> now \<longrightarrow>
        updatedAt u \<le> updatedAt (fst (UpdateProfile now fn ln md tgs u))
        \<and> updatedAt u \<le> updatedAt (fst (ChangeStatus now st u))
        \<and> updatedAt u \<le> updatedAt (fst (ChangeRole now rl u))
        \<and> updatedAt u \<le> updatedAt (Verify now u)
        \<and> updatedAt u \<le> updatedAt (RecordLogin now u)
        \<and> updatedAt u \<le> updatedAt (AddTag now tag u)
        \<and> updatedAt u \<le> updatedAt (RemoveTag now tag u))"
proof -
  have status_role:
    "(UserStatus_IsValid st \<longrightarrow>
        ChangeStatus now st u = (u\<lparr> status := st, updatedAt := now \<rparr>, None)
        \<and> updatedAt (fst (ChangeStatus now st u)) = now)
     \<and> (UserRole_IsValid rl \<longrightarrow>
        ChangeRole now rl u = (u\<lparr> role := rl, updatedAt := now \<rparr>, None)
        \<and> updatedAt (fst (ChangeRole now rl u)) = now)
     \<and> (\<not> UserStatus_IsValid st \<longrightarrow> ChangeStatus now st u = (u, Some ErrInvalidUserStatus))
     \<and> (\<not> UserRole_IsValid rl \<longrightarrow> ChangeRole now rl u = (u, Some ErrInvalidUserRole))"
    by (simp add: ChangeStatus_def ChangeRole_def)
  have plain: "updatedAt (Verify now u) = now \<and> updatedAt (RecordLogin now u) = now"
    by (simp add: Verify_def RecordLogin_def)
  have mono:
    "updatedAt u \<le> now \<longrightarrow>
        updatedAt u \<le> updatedAt (fst (UpdateProfile now fn ln md tgs u))
        \<and> updatedAt u \<le> updatedAt (fst (ChangeStatus now st u))
        \<and> updatedAt u \<le> updatedAt (fst (ChangeRole now rl u))
        \<and> updatedAt u \<le> updatedAt (Verify now u)
        \<and> updatedAt u \<le> updatedAt (RecordLogin now u)
        \<and> updatedAt u \<le> updatedAt (AddTag now tag u)
        \<and> updatedAt u \<le> updatedAt (RemoveTag now tag u)"
    by (simp add: UpdateProfile_updatedAt AddTag_not_older RemoveTag_not_older
        ChangeStatus_def ChangeRole_def Verify_def RecordLogin_def)
  show ?thesis
    using status_role plain mono UpdateProfile_updatedAt [of now fn ln md tgs u]
      AddTag_updatedAt [of tag u now] RemoveTag_updatedAt [of tag u now]
    by blast
qed

theorem User_mutators_bump_updatedAt_witness:
  "UserStatus_IsValid ''suspended''
   \<and> updatedAt (fst (ChangeStatus 50 ''suspended'' test_user)) = 50
   \<and> UserRole_IsValid ''admin''
   \<and> updatedAt (fst (ChangeRole 50 ''admin'' test_user)) = 50
   \<and> ''golang'' \<notin> set (tags test_user)
   \<and> updatedAt (AddTag 50 ''golang'' test_user) = 50
   \<and> ''test'' \<in> set (tags test_user)
   \<and> updatedAt (RemoveTag 50 ''test'' test_user) = 50
   \<and> \<not> UserStatus_IsValid ''deleted''
   \<and> ChangeStatus 50 ''deleted'' test_user = (test_user, Some ErrInvalidUserStatus)
   \<and> \<not> UserRole_IsValid ''root''
   \<and> ChangeRole 50 ''root'' test_user = (test_user, Some ErrInvalidUserRole)
   \<and> updatedAt test_user \<le> 50
   \<and> updatedAt test_user \<le> updatedAt (Verify 50 test_user)
   \<and> updatedAt test_user \<le> updatedAt (AddTag 50 ''test'' test_user)"
proof -
  have valid: "UserStatus_IsValid ''suspended''" "UserRole_IsValid ''admin''"
    by (simp_all add: UserStatus_IsValid_def UserRole_IsValid_def UserStatusSuspended_def
        UserRoleAdmin_def)
  have invalid: "\<not> UserStatus_IsValid ''deleted''" "\<not> UserRole_IsValid ''root''"
    by (simp_all add: UserStatus_IsValid_def UserRole_IsValid_def UserStatusActive_def
        UserStatusInactive_def UserStatusSuspended_def UserStatusPending_def
        UserRoleUser_def UserRoleAdmin_def UserRoleModerator_def)
  have tgs: "''golang'' \<notin> set (tags test_user)" "''test'' \<in> set (tags test_user)"
    "updatedAt test_user \<le> 50"
    by (simp_all add: test_user_def)
  show ?thesis
    using valid invalid tgs
      User_mutators_bump_updatedAt
        [of 50 None None None None test_user "''suspended''" "''admin''" "''golang''"]
      User_mutators_bump_updatedAt
        [of 50 None None None None test_user "''deleted''" "''root''" "''test''"]
    by simp
qed

section \<open>Value-object constructors\<close>

text \<open>
  Claim C5. With \<open>isValidEmail\<close> the email-shape check: for every string the
  check accepts, \<open>NewEmail\<close> succeeds and the email (whose \<open>String()\<close> is the
  value itself) is the trimmed string in lower case; for every string the check
  rejects, \<open>NewEmail\<close> fails with the validation error whose field is \<open>email\<close>.
\<close>

theorem NewEmail_normalizes:
  "(isValidEmail e \<longrightarrow> NewEmail isValidEmail e = Inr (ToLower (TrimSpace e)))
   \<and> (\<not> isValidEmail e \<longrightarrow>
        NewEmail isValidEmail e = Inl (ValidationError ''email'' ''must be a valid email address''))"
  by (simp add: NewEmail_def ErrInvalidEmail_def)

theorem NewEmail_normalizes_witness:
  "CHR ''@'' \<in> set '' Test@Example.COM ''
   \<and> NewEmail (\<lambda>s. CHR ''@'' \<in> set s) '' Test@Example.COM '' = Inr ''test@example.com''
   \<and> CHR ''@'' \<notin> set ''invalid-email''
   \<and> NewEmail (\<lambda>s. CHR ''@'' \<in> set s) ''invalid-email''
       = Inl (ValidationError ''email'' ''must be a valid email address'')"
proof -
  have norm: "ToLower (TrimSpace '' Test@Example.COM '') = ''test@example.com''"
    by code_simp
  show ?thesis
    using norm
      NewEmail_normalizes [of "\<lambda>s. CHR ''@'' \<in> set s" "'' Test@Example.COM ''"]
      NewEmail_normalizes [of "\<lambda>s. CHR ''@'' \<in> set s" "''invalid-email''"]
    by simp
qed

lemma NewUsername_rejects_length:
  "length s < 3 \<or> 50 < length s \<Longrightarrow> NewUsername s = Inl ErrInvalidUsername"
  by (auto simp: NewUsername_def)

lemma NewUsername_accepts_length:
  "3 \<le> length s \<Longrightarrow> length s \<le> 50 \<Longrightarrow> NewUsername s = Inr (TrimSpace s)"
  by (simp add: NewUsername_def)

lemma NewUsername_blank: "NewUsername ''   '' = Inr ''''"
  by (simp add: NewUsername_def TrimSpace_def isSpace_def)

lemma NewFirstName_blank: "NewFirstName ''   '' = Inl ErrInvalidFirstName"
  by (simp add: NewFirstName_def TrimSpace_def isSpace_def)

text \<open>
  Claim C6. The claim reads: a username whose length after trimming is between 3
  and 50 is accepted and returned trimmed. The source compares the length of the
  untrimmed string with the bounds and trims afterwards. The theorem evaluates
  the code on 49 letters followed by two spaces: the trimmed string is the 49
  letters, and \<open>NewUsername\<close> returns \<open>ErrInvalidUsername\<close>.
\<close>

theorem NewUsername_padded_rejected:
  "NewUsername (replicate 49 (CHR ''a'') @ ''  '') = Inl ErrInvalidUsername
   \<and> TrimSpace (replicate 49 (CHR ''a'') @ ''  '') = replicate 49 (CHR ''a'')
   \<and> length (TrimSpace (replicate 49 (CHR ''a'') @ ''  '')) = 49"
proof -
  have rejected: "NewUsername (replicate 49 (CHR ''a'') @ ''  '') = Inl ErrInvalidUsername"
    by (simp add: NewUsername_def)
  have trimmed: "TrimSpace (replicate 49 (CHR ''a'') @ ''  '') = replicate 49 (CHR ''a'')"
    by code_simp
  show ?thesis using rejected trimmed by simp
qed

section \<open>UUID text and byte forms (github.com/google/uuid)\<close>

text \<open>
  The converters call \<open>UUID.String\<close>, \<open>uuid.Parse\<close> and \<open>uuid.FromBytes\<close> of the
  external package \<open>github.com/google/uuid\<close>. Their model follows the package:
  \<open>String\<close> writes the sixteen bytes as lower-case hexadecimal digits in the groups
  8-4-4-4-12 separated by hyphens; \<open>Parse\<close> reads that form (also with the prefix
  \<open>urn:uuid:\<close>, within braces, or as 32 digits without hyphens), digits in either
  case; \<open>FromBytes\<close> takes exactly sixteen bytes in the same order.
\<close>

definition hextable :: string where
  "hextable = ''0123456789abcdef''"

definition hexEncodeByte :: "byte \<Rightarrow> string" where
  "hexEncodeByte b = [hextable ! unat (drop_bit 4 b), hextable ! unat (b AND 15)]"

definition hexEncode :: "byte list \<Rightarrow> string" where
  "hexEncode bs = concat (map hexEncodeByte bs)"

fun uuid_bytes :: "uuid \<Rightarrow> byte list" where
  "uuid_bytes (UUID b0 b1 b2 b3 b4 b5 b6 b7 b8 b9 b10 b11 b12 b13 b14 b15) =
     [b0, b1, b2, b3, b4, b5, b6, b7, b8, b9, b10, b11, b12, b13, b14, b15]"

definition uuid_String :: "uuid \<Rightarrow> string" where
  "uuid_String u =
     (let bs = uuid_bytes u in
      hexEncode (take 4 bs) @ ''-'' @ hexEncode (take 2 (drop 4 bs)) @ ''-''
      @ hexEncode (take 2 (drop 6 bs)) @ ''-'' @ hexEncode (take 2 (drop 8 bs)) @ ''-''
      @ hexEncode (drop 10 bs))"

text \<open>The table \<open>xvalues\<close>: the value of a hexadecimal digit, 255 for any other byte.\<close>

definition xvalues :: "char \<Rightarrow> byte" where
  "xvalues c =
     (let n = (of_char c :: nat) in
      if 48 \<le> n \<and> n \<le> 57 then of_nat (n - 48)
      else if 97 \<le> n \<and> n \<le> 102 then of_nat (n - 87)
      else if 65 \<le> n \<and> n \<le> 70 then of_nat (n - 55)
      else 255)"

definition xtob :: "char \<Rightarrow> char \<Rightarrow> byte option" where
  "xtob x1 x2 =
     (let b1 = xvalues x1; b2 = xvalues x2 in
      if b1 \<noteq> 255 \<and> b2 \<noteq> 255 then Some (push_bit 4 b1 OR b2) else None)"

fun uuid_of_list :: "byte list \<Rightarrow> uuid option" where
  "uuid_of_list [b0, b1, b2, b3, b4, b5, b6, b7, b8, b9, b10, b11, b12, b13, b14, b15] =
     Some (UUID b0 b1 b2 b3 b4 b5 b6 b7 b8 b9 b10 b11 b12 b13 b14 b15)"
| "uuid_of_list bs = None"

definition FromBytes :: "byte list \<Rightarrow> error + uuid" where
  "FromBytes b =
     (case uuid_of_list b of
        None \<Rightarrow> Inl (LibraryError ''invalid UUID length'')
      | Some u \<Rightarrow> Inr u)"

definition parseAt :: "string \<Rightarrow> nat list \<Rightarrow> error + uuid" where
  "parseAt s positions =
     (case those (map (\<lambda>x. xtob (s ! x) (s ! (x + 1))) positions) of
        None \<Rightarrow> Inl (LibraryError ''invalid UUID format'')
      | Some bs \<Rightarrow>
          (case uuid_of_list bs of
             None \<Rightarrow> Inl (LibraryError ''invalid UUID format'')
           | Some u \<Rightarrow> Inr u))"

definition parseHyphenated :: "string \<Rightarrow> error + uuid" where
  "parseHyphenated s =
     (if s ! 8 \<noteq> CHR ''-'' \<or> s ! 13 \<noteq> CHR ''-'' \<or> s ! 18 \<noteq> CHR ''-'' \<or> s ! 23 \<noteq> CHR ''-''
      then Inl (LibraryError ''invalid UUID format'')
      else parseAt s [0, 2, 4, 6, 9, 11, 14, 16, 19, 21, 24, 26, 28, 30, 32, 34])"

definition Parse :: "string \<Rightarrow> error + uuid" where
  "Parse s =
     (if length s = 36 then parseHyphenated s
      else if length s = 36 + 9 then
        (if ToLower (take 9 s) \<noteq> ''urn:uuid:'' then Inl (LibraryError ''invalid urn prefix'')
         else parseHyphenated (drop 9 s))
      else if length s = 36 + 2 then parseHyphenated (drop 1 s)
      else if length s = 32 then
        parseAt s [0, 2, 4, 6, 8, 10, 12, 14, 16, 18, 20, 22, 24, 26, 28, 30]
      else Inl (LibraryError ''invalid UUID length''))"

section \<open>Type converters (adapters/converters/types.go)\<close>

text \<open>
  \<open>DomainToDB\<close> returns a value of \<open>interface{}\<close> (or a string, for the enum
  converters); \<open>DBToDomain\<close> returns the domain value or the error. The enum
  converters return a value beside their error in Go, so their result is the pair
  of the returned value and the returned error (\<open>None\<close> is \<open>nil\<close>).
\<close>

definition SQLiteUUID_DomainToDB :: "uuid \<Rightarrow> iface" where
  "SQLiteUUID_DomainToDB domain = (if domain = Nil_uuid then IfNil else IfString (uuid_String domain))"

definition SQLiteUUID_DBToDomain :: "iface \<Rightarrow> error + uuid" where
  "SQLiteUUID_DBToDomain db =
     (case db of
        IfNil \<Rightarrow> Inr Nil_uuid
      | IfString str \<Rightarrow> Parse str
      | _ \<Rightarrow> Inl (NewConversionError ''expected string for UUID'' db))"

definition PostgresUUID_DomainToDB :: "uuid \<Rightarrow> iface" where
  "PostgresUUID_DomainToDB domain = IfUUID domain"

definition PostgresUUID_DBToDomain :: "iface \<Rightarrow> error + uuid" where
  "PostgresUUID_DBToDomain db =
     (case db of
        IfNil \<Rightarrow> Inr Nil_uuid
      | IfUUID uuidObj \<Rightarrow> Inr uuidObj
      | IfString str \<Rightarrow> Parse str
      | _ \<Rightarrow> Inl (NewConversionError ''expected UUID or string'' db))"

definition MySQLUUID_DomainToDB :: "uuid \<Rightarrow> iface" where
  "MySQLUUID_DomainToDB domain = IfBytes (uuid_bytes domain)"

definition MySQLUUID_DBToDomain :: "iface \<Rightarrow> error + uuid" where
  "MySQLUUID_DBToDomain db =
     (case db of
        IfNil \<Rightarrow> Inr Nil_uuid
      | IfBytes bytes \<Rightarrow> FromBytes bytes
      | IfString str \<Rightarrow> Parse str
      | _ \<Rightarrow> Inl (NewConversionError ''expected bytes or string for UUID'' db))"

definition SQLiteTime_DomainToDB :: "time \<Rightarrow> iface" where
  "SQLiteTime_DomainToDB domain = (if IsZero domain then IfNil else IfTime domain)"

text \<open>
  \<open>parseRFC3339\<close> stands for \<open>time.Parse(time.RFC3339, _)\<close> of Go's standard
  library, a parameter of the embedding.
\<close>

definition SQLiteTime_DBToDomain :: "(string \<Rightarrow> error + time) \<Rightarrow> iface \<Rightarrow> error + time" where
  "SQLiteTime_DBToDomain parseRFC3339 db =
     (case db of
        IfNil \<Rightarrow> Inr 0
      | IfTime t \<Rightarrow> Inr t
      | IfString str \<Rightarrow> parseRFC3339 str
      | _ \<Rightarrow> Inl (NewConversionError ''expected time or string'' db))"

definition SQLiteBool_DomainToDB :: "bool \<Rightarrow> iface" where
  "SQLiteBool_DomainToDB domain = IfBool domain"

definition SQLiteBool_DBToDomain :: "iface \<Rightarrow> error + bool" where
  "SQLiteBool_DBToDomain db =
     (case db of
        IfNil \<Rightarrow> Inr False
      | IfBool v \<Rightarrow> Inr v
      | IfInt64 v \<Rightarrow> Inr (v \<noteq> 0)
      | IfInt v \<Rightarrow> Inr (v \<noteq> 0)
      | IfString v \<Rightarrow> Inr (v = ''true'' \<or> v = ''1'')
      | _ \<Rightarrow> Inl (NewConversionError ''expected bool, int, or string'' db))"

definition DefaultUserStatus_DomainToDB :: "UserStatus \<Rightarrow> string" where
  "DefaultUserStatus_DomainToDB domain = domain"

definition DefaultUserStatus_DBToDomain :: "string \<Rightarrow> UserStatus \<times> error option" where
  "DefaultUserStatus_DBToDomain db =
     (if \<not> UserStatus_IsValid db
      then (UserStatusActive, Some (NewConversionError ''invalid user status'' (IfString db)))
      else (db, None))"

definition DefaultUserRole_DomainToDB :: "UserRole \<Rightarrow> string" where
  "DefaultUserRole_DomainToDB domain = domain"

definition DefaultUserRole_DBToDomain :: "string \<Rightarrow> UserRole \<times> error option" where
  "DefaultUserRole_DBToDomain db =
     (if \<not> UserRole_IsValid db
      then (UserRoleUser, Some (NewConversionError ''invalid user role'' (IfString db)))
      else (db, None))"

definition DefaultSessionToken_DomainToDB :: "SessionToken \<Rightarrow> iface" where
  "DefaultSessionToken_DomainToDB domain = IfString (uuid_String domain)"

definition DefaultSessionToken_DBToDomain :: "iface \<Rightarrow> error + SessionToken" where
  "DefaultSessionToken_DBToDomain db =
     (case db of
        IfString v \<Rightarrow>
          (case Parse v of
             Inl err \<Rightarrow> Inl (NewConversionError ''invalid UUID format'' db)
           | Inr parsed \<Rightarrow> Inr parsed)
      | IfUUID v \<Rightarrow> Inr v
      | IfBytes v \<Rightarrow>
          (case FromBytes v of
             Inl err \<Rightarrow> Inl (NewConversionError ''invalid UUID bytes'' db)
           | Inr parsed \<Rightarrow> Inr parsed)
      | _ \<Rightarrow> Inl (NewConversionError ''expected string, UUID, or bytes'' db))"

section \<open>Properties of the converters\<close>

lemma UserStatus_IsValid_iff:
  "UserStatus_IsValid s \<longleftrightarrow> s \<in> {''active'', ''inactive'', ''suspended'', ''pending''}"
  by (auto simp: UserStatus_IsValid_def UserStatusActive_def UserStatusInactive_def
      UserStatusSuspended_def UserStatusPending_def)

lemma UserRole_IsValid_iff:
  "UserRole_IsValid r \<longleftrightarrow> r \<in> {''user'', ''admin'', ''moderator''}"
  by (auto simp: UserRole_IsValid_def UserRoleUser_def UserRoleAdmin_def UserRoleModerator_def)

text \<open>
  Claim C2. For every string outside \<open>active\<close>, \<open>inactive\<close>, \<open>suspended\<close>,
  \<open>pending\<close> the status converter's \<open>DBToDomain\<close> returns a \<open>ConversionError\<close>
  (that holds the string), and whenever it returns no error the status it returns
  is the stored string itself, a member of the set: no default is returned without
  an error. The same holds for the role converter and \<open>user\<close>, \<open>admin\<close>,
  \<open>moderator\<close>.
\<close>

theorem enum_DBToDomain_fails_closed:
  "(s \<notin> {''active'', ''inactive'', ''suspended'', ''pending''} \<longrightarrow>
      snd (DefaultUserStatus_DBToDomain s)
        = Some (ConversionError ''invalid user status'' (IfString s)))
   \<and> (snd (DefaultUserStatus_DBToDomain s) = None \<longrightarrow>
        fst (DefaultUserStatus_DBToDomain s) = s
        \<and> s \<in> {''active'', ''inactive'', ''suspended'', ''pending''})
   \<and> (r \<notin> {''user'', ''admin'', ''moderator''} \<longrightarrow>
        snd (DefaultUserRole_DBToDomain r)
          = Some (ConversionError ''invalid user role'' (IfString r)))
   \<and> (snd (DefaultUserRole_DBToDomain r) = None \<longrightarrow>
        fst (DefaultUserRole_DBToDomain r) = r \<and> r \<in> {''user'', ''admin'', ''moderator''})"
  unfolding DefaultUserStatus_DBToDomain_def DefaultUserRole_DBToDomain_def
    UserStatus_IsValid_iff UserRole_IsValid_iff NewConversionError_def
  by simp

theorem enum_DBToDomain_fails_closed_witness:
  "''deleted'' \<notin> {''active'', ''inactive'', ''suspended'', ''pending''}
   \<and> snd (DefaultUserStatus_DBToDomain ''deleted'')
       = Some (ConversionError ''invalid user status'' (IfString ''deleted''))
   \<and> ''root'' \<notin> {''user'', ''admin'', ''moderator''}
   \<and> snd (DefaultUserRole_DBToDomain ''root'')
       = Some (ConversionError ''invalid user role'' (IfString ''root''))
   \<and> snd (DefaultUserStatus_DBToDomain ''pending'') = None
   \<and> fst (DefaultUserStatus_DBToDomain ''pending'') = ''pending''
   \<and> snd (DefaultUserRole_DBToDomain ''admin'') = None
   \<and> fst (DefaultUserRole_DBToDomain ''admin'') = ''admin''"
proof -
  have ok: "snd (DefaultUserStatus_DBToDomain ''pending'') = None"
    "snd (DefaultUserRole_DBToDomain ''admin'') = None"
    by (simp_all add: DefaultUserStatus_DBToDomain_def DefaultUserRole_DBToDomain_def
        UserStatus_IsValid_iff UserRole_IsValid_iff)
  show ?thesis
    using ok enum_DBToDomain_fails_closed [of "''deleted''" "''root''"]
      enum_DBToDomain_fails_closed [of "''pending''" "''admin''"]
    by simp
qed

lemma hex_digits_table: "list_all (\<lambda>k. xvalues (hextable ! k) = of_nat k) [0..<16]"
  by code_simp

lemma xvalues_hextable: "n < 16 \<Longrightarrow> xvalues (hextable ! n) = of_nat n"
  using hex_digits_table by (simp add: list_all_iff)

lemma hi_nibble: "unat (drop_bit 4 (b::byte)) < 16"
proof -
  have "unat b < 256" using unsigned_less [of b] by simp
  then show ?thesis by (simp add: unat_drop_bit_eq drop_bit_eq_div unat_div)
qed

lemma lo_nibble: "unat ((b::byte) AND 15) < 16"
proof -
  have "b AND 15 \<le> 15" by (rule word_and_le1)
  then show ?thesis by (simp add: word_le_nat_alt)
qed

lemma nibbles_join: "push_bit 4 (drop_bit 4 (b::byte)) OR (b AND 15) = b"
proof -
  have "(15::byte) = mask 4" by (simp add: mask_eq_exp_minus_1)
  then show ?thesis
    by (simp add: bit_eq_iff bit_simps) (auto simp: bit_simps)
qed

lemma xtob_hexEncodeByte:
  "xtob (hextable ! unat (drop_bit 4 (b::byte))) (hextable ! unat (b AND 15)) = Some b"
proof -
  have hi: "xvalues (hextable ! unat (drop_bit 4 b)) = drop_bit 4 b"
    using xvalues_hextable [OF hi_nibble [of b]] by simp
  have lo: "xvalues (hextable ! unat (b AND 15)) = b AND 15"
    using xvalues_hextable [OF lo_nibble [of b]] by simp
  have hi_ok: "drop_bit 4 b \<noteq> 255" using hi_nibble [of b] by auto
  have lo_ok: "b AND 15 \<noteq> 255" using lo_nibble [of b] by auto
  show ?thesis
    unfolding xtob_def hi lo Let_def using hi_ok lo_ok nibbles_join [of b] by simp
qed

lemma Parse_String: "Parse (uuid_String u) = Inr u"
proof (cases u)
  case (UUID b0 b1 b2 b3 b4 b5 b6 b7 b8 b9 b10 b11 b12 b13 b14 b15)
  have len: "length (uuid_String u) = 36"
    by (simp add: UUID uuid_String_def hexEncode_def hexEncodeByte_def)
  show ?thesis
    unfolding Parse_def len
    by (simp add: UUID parseHyphenated_def parseAt_def uuid_String_def hexEncode_def
        hexEncodeByte_def xtob_hexEncodeByte)
qed

lemma FromBytes_uuid_bytes: "FromBytes (uuid_bytes u) = Inr u"
  by (cases u) (simp add: FromBytes_def)

text \<open>
  Claim C3. For the UUID converters of the three engines and the session-token
  converter (every UUID), the time converter (every instant, the zero time through
  NULL), the boolean converter, and the status and role converters (every value of
  the enum), \<open>DBToDomain\<close> of \<open>DomainToDB v\<close> succeeds and returns \<open>v\<close>.
\<close>

theorem converters_round_trip:
  "SQLiteUUID_DBToDomain (SQLiteUUID_DomainToDB u) = Inr u
   \<and> PostgresUUID_DBToDomain (PostgresUUID_DomainToDB u) = Inr u
   \<and> MySQLUUID_DBToDomain (MySQLUUID_DomainToDB u) = Inr u
   \<and> DefaultSessionToken_DBToDomain (DefaultSessionToken_DomainToDB u) = Inr u
   \<and> SQLiteTime_DBToDomain parseRFC3339 (SQLiteTime_DomainToDB t) = Inr t
   \<and> SQLiteBool_DBToDomain (SQLiteBool_DomainToDB b) = Inr b
   \<and> (UserStatus_IsValid st \<longrightarrow>
        DefaultUserStatus_DBToDomain (DefaultUserStatus_DomainToDB st) = (st, None))
   \<and> (UserRole_IsValid rl \<longrightarrow>
        DefaultUserRole_DBToDomain (DefaultUserRole_DomainToDB rl) = (rl, None))"
proof -
  have uuids:
    "SQLiteUUID_DBToDomain (SQLiteUUID_DomainToDB u) = Inr u"
    "PostgresUUID_DBToDomain (PostgresUUID_DomainToDB u) = Inr u"
    "MySQLUUID_DBToDomain (MySQLUUID_DomainToDB u) = Inr u"
    "DefaultSessionToken_DBToDomain (DefaultSessionToken_DomainToDB u) = Inr u"
    by (simp_all add: SQLiteUUID_DBToDomain_def SQLiteUUID_DomainToDB_def
        PostgresUUID_DBToDomain_def PostgresUUID_DomainToDB_def
        MySQLUUID_DBToDomain_def MySQLUUID_DomainToDB_def
        DefaultSessionToken_DBToDomain_def DefaultSessionToken_DomainToDB_def
        Parse_String FromBytes_uuid_bytes)
  have others:
    "SQLiteTime_DBToDomain parseRFC3339 (SQLiteTime_DomainToDB t) = Inr t"
    "SQLiteBool_DBToDomain (SQLiteBool_DomainToDB b) = Inr b"
    by (simp_all add: SQLiteTime_DBToDomain_def SQLiteTime_DomainToDB_def IsZero_def
        SQLiteBool_DBToDomain_def SQLiteBool_DomainToDB_def)
  have enums:
    "UserStatus_IsValid st \<longrightarrow>
       DefaultUserStatus_DBToDomain (DefaultUserStatus_DomainToDB st) = (st, None)"
    "UserRole_IsValid rl \<longrightarrow>
       DefaultUserRole_DBToDomain (DefaultUserRole_DomainToDB rl) = (rl, None)"
    by (simp_all add: DefaultUserStatus_DBToDomain_def DefaultUserStatus_DomainToDB_def
        DefaultUserRole_DBToDomain_def DefaultUserRole_DomainToDB_def)
  show ?thesis using uuids others enums by simp
qed

theorem converters_round_trip_witness:
  "UserStatus_IsValid ''suspended''
   \<and> DefaultUserStatus_DBToDomain (DefaultUserStatus_DomainToDB ''suspended'')
       = (''suspended'', None)
   \<and> UserRole_IsValid ''moderator''
   \<and> DefaultUserRole_DBToDomain (DefaultUserRole_DomainToDB ''moderator'')
       = (''moderator'', None)
   \<and> SQLiteUUID_DBToDomain
        (SQLiteUUID_DomainToDB (UUID 18 52 171 205 1 2 3 4 5 6 7 8 9 10 254 255))
       = Inr (UUID 18 52 171 205 1 2 3 4 5 6 7 8 9 10 254 255)
   \<and> MySQLUUID_DBToDomain
        (MySQLUUID_DomainToDB (UUID 18 52 171 205 1 2 3 4 5 6 7 8 9 10 254 255))
       = Inr (UUID 18 52 171 205 1 2 3 4 5 6 7 8 9 10 254 255)
   \<and> SQLiteBool_DBToDomain (SQLiteBool_DomainToDB True) = Inr True"
proof -
  have valid: "UserStatus_IsValid ''suspended''" "UserRole_IsValid ''moderator''"
    by (simp_all add: UserStatus_IsValid_iff UserRole_IsValid_iff)
  show ?thesis
    using valid
      converters_round_trip
        [of "UUID 18 52 171 205 1 2 3 4 5 6 7 8 9 10 254 255" "\<lambda>s. Inl (LibraryError s)" 0
          True "''suspended''" "''moderator''"]
    by simp
qed

section \<open>The user service (domain/services/user_service.go)\<close>

text \<open>
  The service holds four interfaces: the user repository, the session repository,
  the event publisher and the validator. What their methods return is given by
  the record \<open>Deps\<close>, one function per method the service calls (within one
  service call each of them is called at most once); \<open>isValidEmail_impl\<close> is the
  helper of \<open>NewEmail\<close> and \<open>net_ParseIP\<close> is \<open>net.ParseIP\<close>. The calls that
  change something outside the service are recorded, in order, in the record
  \<open>Calls\<close>: the users handed to \<open>userRepo.Create\<close> and \<open>userRepo.Update\<close>, the
  sessions handed to \<open>sessionRepo.Create\<close>, and the events handed to
  \<open>eventPub.Publish\<close>. A repository does not change the entity it is handed.
\<close>

record Deps =
  validator_ValidateUserCreate :: "string \<Rightarrow> string \<Rightarrow> string \<Rightarrow> string \<Rightarrow> error option"
  validator_ValidateUserUpdate :: "User \<Rightarrow> error option"
  userRepo_GetByEmail :: "Email \<Rightarrow> error + User"
  userRepo_GetByUsername :: "Username \<Rightarrow> error + User"
  userRepo_GetByID :: "UserID \<Rightarrow> error + User"
  userRepo_Create :: "User \<Rightarrow> error option"
  userRepo_Update :: "User \<Rightarrow> error option"
  userRepo_VerifyCredentials :: "Email \<Rightarrow> PasswordHash \<Rightarrow> error + User"
  sessionRepo_Create :: "UserSession \<Rightarrow> error option"
  eventPub_Publish :: "UserEvent \<Rightarrow> error option"
  isValidEmail_impl :: "string \<Rightarrow> bool"
  net_ParseIP :: "string \<Rightarrow> byte list"

record Calls =
  userRepo_Create_calls :: "User list"
  userRepo_Update_calls :: "User list"
  sessionRepo_Create_calls :: "UserSession list"
  published :: "UserEvent list"

text \<open>
  The values a service call draws from outside: the readings of \<open>time.Now()\<close> and
  the results of \<open>uuid.New()\<close>, one field per place of the source that draws one.
\<close>

record Fresh =
  user_now :: time
  user_uuid :: uuid
  event_id :: string
  event_now :: time
  session_now :: time
  session_token :: uuid
  login_now :: time
  profile_now1 :: time
  profile_now2 :: time
  profile_now3 :: time
  profile_now4 :: time

record CreateUserRequest =
  req_Email :: string
  req_Username :: string
  req_PasswordHash :: string
  req_FirstName :: string
  req_LastName :: string
  req_Status :: string
  req_Role :: string
  req_Tags :: "string list"
  req_Metadata :: "(string \<times> iface) list"

record UpdateUserRequest =
  upd_UserID :: UserID
  upd_FirstName :: "string option"
  upd_LastName :: "string option"
  upd_Metadata :: "(string \<times> iface) list option"
  upd_Tags :: "string list option"
  upd_UpdatedBy :: string

definition publish :: "Deps \<Rightarrow> UserEvent \<Rightarrow> Calls \<Rightarrow> Calls \<times> error option" where
  "publish deps event log = (log\<lparr> published := published log @ [event] \<rparr>, eventPub_Publish deps event)"

definition isOk :: "error + 'a \<Rightarrow> bool" where
  "isOk r = (case r of Inl err \<Rightarrow> False | Inr v \<Rightarrow> True)"

definition CreateUser ::
  "Deps \<Rightarrow> Fresh \<Rightarrow> CreateUserRequest \<Rightarrow> Calls \<Rightarrow> (error + User) \<times> Calls" where
  "CreateUser deps fresh req log =
     (case validator_ValidateUserCreate deps (req_Email req) (req_Username req)
             (req_FirstName req) (req_LastName req) of
        Some err \<Rightarrow> (Inl (Wrapped ''validation failed'' err), log)
      | None \<Rightarrow>
     if isOk (userRepo_GetByEmail deps (req_Email req)) then (Inl ErrUserAlreadyExists, log)
     else if isOk (userRepo_GetByUsername deps (req_Username req))
       then (Inl ErrUserAlreadyExists, log)
     else
     (case NewEmail (isValidEmail_impl deps) (req_Email req) of
        Inl err \<Rightarrow> (Inl (Wrapped ''invalid email'' err), log)
      | Inr em \<Rightarrow>
     (case NewUsername (req_Username req) of
        Inl err \<Rightarrow> (Inl (Wrapped ''invalid username'' err), log)
      | Inr un \<Rightarrow>
     (case NewFirstName (req_FirstName req) of
        Inl err \<Rightarrow> (Inl (Wrapped ''invalid first name'' err), log)
      | Inr fn \<Rightarrow>
     (case NewLastName (req_LastName req) of
        Inl err \<Rightarrow> (Inl (Wrapped ''invalid last name'' err), log)
      | Inr ln \<Rightarrow>
     (case NewPasswordHash (req_PasswordHash req) of
        Inl err \<Rightarrow> (Inl (Wrapped ''invalid password hash'' err), log)
      | Inr pw \<Rightarrow>
     (case NewUser (user_now fresh) (user_uuid fresh) em un pw fn ln (req_Status req)
             (req_Role req) [] (req_Tags req) of
        Inl err \<Rightarrow> (Inl (Wrapped ''failed to create user'' err), log)
      | Inr user \<Rightarrow>
     (let log1 = log\<lparr> userRepo_Create_calls := userRepo_Create_calls log @ [user] \<rparr> in
      case userRepo_Create deps user of
        Some err \<Rightarrow> (Inl (Wrapped ''failed to save user'' err), log1)
      | None \<Rightarrow>
          (let event = UserCreated (event_id fresh) (event_now fresh)
                         (uuid_String (uuid_u user)) em un fn ln (role user) (status user)
           in (Inr user, fst (publish deps event log1)))))))))))"

text \<open>
  \<open>UpdateUser\<close>. The map \<open>changes\<close> is the list of its entries (each key is set at
  most once). Three of the four calls of \<open>UpdateProfile\<close> in the source pass three
  arguments to the method of four parameters; they are read with nil for the
  missing last argument.
\<close>

definition oldNew :: "iface \<Rightarrow> iface \<Rightarrow> iface" where
  "oldNew old new = IfMap [(''old'', old), (''new'', new)]"

definition UpdateUser ::
  "Deps \<Rightarrow> Fresh \<Rightarrow> UpdateUserRequest \<Rightarrow> Calls \<Rightarrow> (error + User) \<times> Calls" where
  "UpdateUser deps fresh req log =
     (case userRepo_GetByID deps (upd_UserID req) of
        Inl err \<Rightarrow> (Inl (Wrapped ''user not found'' err), log)
      | Inr user0 \<Rightarrow>
     (case (case upd_FirstName req of
              None \<Rightarrow> Inr (user0, [])
            | Some f \<Rightarrow>
                (case NewFirstName f of
                   Inl err \<Rightarrow> Inl (Wrapped ''invalid first name'' err)
                 | Inr fn \<Rightarrow>
                     Inr (fst (UpdateProfile (profile_now1 fresh) (Some fn) None None None user0),
                          [(''first_name'', oldNew (IfString (firstName user0)) (IfString fn))])))
      of Inl err \<Rightarrow> (Inl err, log)
       | Inr (user1, changes1) \<Rightarrow>
     (case (case upd_LastName req of
              None \<Rightarrow> Inr (user1, changes1)
            | Some l \<Rightarrow>
                (case NewLastName l of
                   Inl err \<Rightarrow> Inl (Wrapped ''invalid last name'' err)
                 | Inr ln \<Rightarrow>
                     Inr (fst (UpdateProfile (profile_now2 fresh) None (Some ln) None None user1),
                          changes1 @ [(''last_name'', oldNew (IfString (lastName user1)) (IfString ln))])))
      of Inl err \<Rightarrow> (Inl err, log)
       | Inr (user2, changes2) \<Rightarrow>
     (let (user3, changes3) =
            (case upd_Metadata req of
               None \<Rightarrow> (user2, changes2)
             | Some md \<Rightarrow>
                 (fst (UpdateProfile (profile_now3 fresh) None None (Some md) None user2),
                  changes2 @ [(''metadata'', oldNew (IfMap (metadata user2)) (IfMap md))]));
          (user4, changes4) =
            (case upd_Tags req of
               None \<Rightarrow> (user3, changes3)
             | Some tg \<Rightarrow>
                 (fst (UpdateProfile (profile_now4 fresh) None None None (Some tg) user3),
                  changes3 @ [(''tags'', oldNew (IfStrings (tags user3)) (IfStrings tg))]))
      in
      case validator_ValidateUserUpdate deps user4 of
        Some err \<Rightarrow> (Inl (Wrapped ''validation failed'' err), log)
      | None \<Rightarrow>
     (let log1 = log\<lparr> userRepo_Update_calls := userRepo_Update_calls log @ [user4] \<rparr> in
      case userRepo_Update deps user4 of
        Some err \<Rightarrow> (Inl (Wrapped ''failed to update user'' err), log1)
      | None \<Rightarrow>
          (if length changes4 > 0
           then (Inr user4,
                 fst (publish deps
                        (UserUpdated (event_id fresh) (event_now fresh)
                           (uuid_String (uuid_u user4)) changes4 (upd_UpdatedBy req)) log1))
           else (Inr user4, log1)))))))"

text \<open>
  \<open>SetMetadata\<close> on a device info whose map exists (as \<open>NewSessionDeviceInfo\<close>
  makes it): the entry of the key is replaced or added.
\<close>

definition SetMetadata :: "string \<Rightarrow> iface \<Rightarrow> SessionDeviceInfo \<Rightarrow> SessionDeviceInfo" where
  "SetMetadata key v d = d\<lparr> Metadata := filter (\<lambda>kv. fst kv \<noteq> key) (Metadata d) @ [(key, v)] \<rparr>"

definition AuthenticateUser ::
  "Deps \<Rightarrow> Fresh \<Rightarrow> string \<Rightarrow> string \<Rightarrow> string \<Rightarrow> string \<Rightarrow> Calls
   \<Rightarrow> (error + UserSession) \<times> Calls" where
  "AuthenticateUser deps fresh em pass ip ua log =
     (case NewEmail (isValidEmail_impl deps) em of
        Inl err \<Rightarrow> (Inl ErrInvalidCredentials, log)
      | Inr emailEntity \<Rightarrow>
     (case userRepo_VerifyCredentials deps emailEntity pass of
        Inl err \<Rightarrow>
          (let event = UserLoginFailed (event_id fresh) (event_now fresh) [] ip ua ''unknown''
           in (Inl ErrInvalidCredentials, fst (publish deps event log)))
      | Inr user \<Rightarrow>
     if \<not> User_IsActive user then
       (let event = UserLoginFailed (event_id fresh) (event_now fresh)
                      (uuid_String (uuid_u user)) ip ua ''inactive_account'';
            log1 = fst (publish deps event log)
        in if status user = UserStatusSuspended then (Inl ErrAccountSuspended, log1)
           else (Inl ErrAccountInactive, log1))
     else
       (let deviceInfo = SetMetadata ''user_agent'' (IfString ua) NewSessionDeviceInfo;
            session = NewUserSession (session_now fresh) (session_token fresh) (id_u user)
                        (net_ParseIP deps ip) ua deviceInfo SessionDurationMedium;
            log1 = log\<lparr> sessionRepo_Create_calls := sessionRepo_Create_calls log @ [session] \<rparr>
        in case sessionRepo_Create deps session of
             Some err \<Rightarrow> (Inl (Wrapped ''failed to create session'' err), log1)
           | None \<Rightarrow>
               (let user1 = RecordLogin (login_now fresh) user;
                    log2 = log1\<lparr> userRepo_Update_calls := userRepo_Update_calls log1 @ [user1] \<rparr>;
                    event = UserLoggedIn (event_id fresh) (event_now fresh)
                              (uuid_String (uuid_u user1)) ip ua ''unknown''
                in (Inr session, fst (publish deps event log2))))))"

text \<open>The reason code of a login event: the \<open>Device\<close> field of its payload.\<close>

definition reason_code :: "UserEvent \<Rightarrow> string" where
  "reason_code ev =
     (case ev_Data ev of UserLoginEvent uid ip ua device success \<Rightarrow> device | _ \<Rightarrow> [])"

section \<open>Fixtures of the integration test\<close>

definition ErrUserNotFound :: error where
  "ErrUserNotFound = NotFoundError ''user'' ''user not found''"

text \<open>
  The collaborators of the integration test: the mock user repository finds no
  user by email or username, stores and updates without error, and the publisher
  and the session repository accept everything. The result of
  \<open>VerifyCredentials\<close> is left to each test. The email-shape check of the fixture
  asks for an at sign.
\<close>

definition mock_deps :: "(Email \<Rightarrow> PasswordHash \<Rightarrow> error + User) \<Rightarrow> Deps" where
  "mock_deps verify =
     \<lparr> validator_ValidateUserCreate = (\<lambda>em un fn ln. None),
       validator_ValidateUserUpdate = (\<lambda>u. None),
       userRepo_GetByEmail = (\<lambda>em. Inl ErrUserNotFound),
       userRepo_GetByUsername = (\<lambda>un. Inl ErrUserNotFound),
       userRepo_GetByID = (\<lambda>i. if i = 0 then Inr test_user else Inl ErrUserNotFound),
       userRepo_Create = (\<lambda>u. None),
       userRepo_Update = (\<lambda>u. None),
       userRepo_VerifyCredentials = verify,
       sessionRepo_Create = (\<lambda>s. None),
       eventPub_Publish = (\<lambda>e. None),
       isValidEmail_impl = (\<lambda>s. CHR ''@'' \<in> set s),
       net_ParseIP = (\<lambda>s. [127, 0, 0, 1]) \<rparr>"

definition test_fresh :: Fresh where
  "test_fresh =
     \<lparr> user_now = 100, user_uuid = UUID 18 52 171 205 1 2 3 4 5 6 7 8 9 10 254 255,
       event_id = ''e1'', event_now = 101, session_now = 102,
       session_token = UUID 1 1 1 1 1 1 1 1 1 1 1 1 1 1 1 1, login_now = 103,
       profile_now1 = 104, profile_now2 = 105, profile_now3 = 106, profile_now4 = 107 \<rparr>"

definition test_request :: CreateUserRequest where
  "test_request =
     \<lparr> req_Email = ''test@example.com'', req_Username = ''testuser'',
       req_PasswordHash = ''$2a$10$abcdefghijklmnopqrstuvwx1234567890'',
       req_FirstName = ''John'', req_LastName = ''Doe'', req_Status = ''active'',
       req_Role = ''user'', req_Tags = [''developer'', ''golang''], req_Metadata = [] \<rparr>"

definition created_user :: User where
  "created_user =
     \<lparr> id_u = 0, uuid_u = UUID 18 52 171 205 1 2 3 4 5 6 7 8 9 10 254 255,
       email = ''test@example.com'', username = ''testuser'',
       password = ''$2a$10$abcdefghijklmnopqrstuvwx1234567890'', firstName = ''John'',
       lastName = ''Doe'', status = ''active'', role = ''user'', isVerified = False,
       metadata = [], tags = [''developer'', ''golang''], createdAt = 100, updatedAt = 100,
       lastLoginAt = None \<rparr>"

definition empty_update :: UpdateUserRequest where
  "empty_update =
     \<lparr> upd_UserID = 0, upd_FirstName = None, upd_LastName = None, upd_Metadata = None,
       upd_Tags = None, upd_UpdatedBy = ''system'' \<rparr>"

definition no_calls :: Calls where
  "no_calls =
     \<lparr> userRepo_Create_calls = [], userRepo_Update_calls = [], sessionRepo_Create_calls = [],
       published = [] \<rparr>"

section \<open>Events published by the service\<close>

lemma CreateUser_success:
  assumes "fst (CreateUser deps fresh req log) = Inr user"
  shows "published (snd (CreateUser deps fresh req log)) = published log
           @ [UserCreated (event_id fresh) (event_now fresh) (uuid_String (uuid_u user))
                (email user) (username user) (firstName user) (lastName user)
                (role user) (status user)]"
    and "userRepo_Create_calls (snd (CreateUser deps fresh req log))
           = userRepo_Create_calls log @ [user]"
  using assms
  by (auto simp: CreateUser_def publish_def Let_def NewUser_def
      split: option.splits sum.splits if_splits)

lemma UpdateUser_no_fields:
  assumes "upd_FirstName req = None" "upd_LastName req = None" "upd_Metadata req = None"
    "upd_Tags req = None"
  shows "published (snd (UpdateUser deps fresh req log)) = published log"
  using assms
  by (auto simp: UpdateUser_def publish_def Let_def split: option.splits sum.splits)

text \<open>
  With the in-memory publisher behind the interface, the events handed to
  \<open>Publish\<close> are the events it holds.
\<close>

lemma publish_in_memory:
  "published (fst (publish deps ev log)) = Events (fst (Publish \<lparr> events = published log \<rparr> ev))"
  by (simp add: publish_def Publish_def Events_def)

lemma UserCreated_fields:
  "ev_Type (UserCreated eid now uid em un fn ln rl st) = EventUserCreated"
  "ev_UserID (UserCreated eid now uid em un fn ln rl st) = uid"
  "ev_Data (UserCreated eid now uid em un fn ln rl st) = UserCreatedEvent uid em un fn ln rl st"
  by (simp_all add: UserCreated_def NewUserEvent_def)

text \<open>
  Claim C7. When \<open>CreateUser\<close> returns a user, the service has handed exactly one
  event to the publisher during the call: a \<open>UserCreated\<close> event (type
  \<open>user.created\<close>) whose \<open>UserID\<close> is the string of the returned user's UUID.
  When none of the optional fields of an \<open>UpdateUser\<close> request is set, the call
  hands no event to the publisher (whether it succeeds or fails).
\<close>

theorem service_event_emission:
  "(fst (CreateUser deps fresh req log) = Inr user \<longrightarrow>
      (\<exists>ev. published (snd (CreateUser deps fresh req log)) = published log @ [ev]
            \<and> ev_Type ev = EventUserCreated
            \<and> ev_UserID ev = uuid_String (uuid_u user)
            \<and> ev_Data ev = UserCreatedEvent (uuid_String (uuid_u user)) (email user)
                 (username user) (firstName user) (lastName user) (role user) (status user)))
   \<and> (upd_FirstName ureq = None \<and> upd_LastName ureq = None \<and> upd_Metadata ureq = None
        \<and> upd_Tags ureq = None \<longrightarrow>
        published (snd (UpdateUser deps fresh ureq log)) = published log)"
  using CreateUser_success(1) [of deps fresh req log user]
    UpdateUser_no_fields [of ureq deps fresh log]
  by (simp add: UserCreated_fields)

lemma fixture_strings:
  "TrimSpace ''test@example.com'' = ''test@example.com''"
  "TrimSpace ''testuser'' = ''testuser''"
  "TrimSpace ''John'' = ''John''"
  "TrimSpace ''Doe'' = ''Doe''"
  "ToLower ''test@example.com'' = ''test@example.com''"
  by code_simp+

lemma fixture_created:
  "fst (CreateUser (mock_deps v) test_fresh test_request no_calls) = Inr created_user"
  by (simp add: CreateUser_def mock_deps_def test_fresh_def test_request_def no_calls_def
      created_user_def isOk_def ErrUserNotFound_def NewEmail_def NewUsername_def
      NewFirstName_def NewLastName_def NewPasswordHash_def NewUser_def
      UserStatus_IsValid_iff UserRole_IsValid_iff publish_def Let_def fixture_strings)

theorem service_event_emission_witness:
  "fst (CreateUser (mock_deps (\<lambda>e p. Inl ErrInvalidCredentials)) test_fresh test_request no_calls)
     = Inr created_user
   \<and> (\<exists>ev. published (snd (CreateUser (mock_deps (\<lambda>e p. Inl ErrInvalidCredentials)) test_fresh
                              test_request no_calls)) = [ev]
          \<and> ev_Type ev = EventUserCreated
          \<and> ev_UserID ev = uuid_String (uuid_u created_user))
   \<and> upd_FirstName empty_update = None \<and> upd_LastName empty_update = None
   \<and> upd_Metadata empty_update = None \<and> upd_Tags empty_update = None
   \<and> published (snd (UpdateUser (mock_deps (\<lambda>e p. Inl ErrInvalidCredentials)) test_fresh
                       empty_update no_calls)) = []"
proof -
  have none: "upd_FirstName empty_update = None" "upd_LastName empty_update = None"
    "upd_Metadata empty_update = None" "upd_Tags empty_update = None"
    "published no_calls = []"
    by (simp_all add: empty_update_def no_calls_def)
  show ?thesis
    using none fixture_created [of "\<lambda>e p. Inl ErrInvalidCredentials"]
      service_event_emission
        [of "mock_deps (\<lambda>e p. Inl ErrInvalidCredentials)" test_fresh test_request no_calls
          created_user empty_update]
    by auto
qed

section \<open>Authentication of an account that is not active\<close>

lemma Authenticate_not_active:
  assumes "NewEmail (isValidEmail_impl deps) em = Inr e"
    and "userRepo_VerifyCredentials deps e pass = Inr user"
    and "\<not> User_IsActive user"
  shows "AuthenticateUser deps fresh em pass ip ua log =
          (Inl (if status user = UserStatusSuspended then ErrAccountSuspended
                else ErrAccountInactive),
           log\<lparr> published := published log @
              [UserLoginFailed (event_id fresh) (event_now fresh) (uuid_String (uuid_u user))
                 ip ua ''inactive_account''] \<rparr>)"
  using assms
  by (simp add: AuthenticateUser_def publish_def Let_def)

lemma Authenticate_mismatch:
  assumes "NewEmail (isValidEmail_impl deps) em = Inr e"
    and "userRepo_VerifyCredentials deps e pass = Inl err"
  shows "AuthenticateUser deps fresh em pass ip ua log =
          (Inl ErrInvalidCredentials,
           log\<lparr> published := published log @
              [UserLoginFailed (event_id fresh) (event_now fresh) [] ip ua ''unknown''] \<rparr>)"
  using assms
  by (simp add: AuthenticateUser_def publish_def Let_def)

lemma UserLoginFailed_fields:
  "ev_Type (UserLoginFailed eid now uid ip ua device) = EventUserLoginFail"
  "ev_UserID (UserLoginFailed eid now uid ip ua device) = uid"
  "reason_code (UserLoginFailed eid now uid ip ua device) = device"
  by (simp_all add: UserLoginFailed_def NewUserEvent_def reason_code_def)

text \<open>
  Claim C4, as the code has it. When the credentials are verified and the user's
  status is not \<open>active\<close>: no session is handed to the session repository (and no
  user to \<open>Update\<close>); exactly one event is published, a \<open>UserLoginFailed\<close> event of
  the user whose reason code is \<open>inactive_account\<close>, which differs from the code
  \<open>unknown\<close> of the event published on a credential mismatch and is the same for
  every status that is not active; the call returns \<open>ErrAccountSuspended\<close> when
  the status is \<open>suspended\<close> and \<open>ErrAccountInactive\<close> otherwise, an
  \<open>AuthorizationError\<close> in both cases.
\<close>

theorem AuthenticateUser_not_active:
  "(NewEmail (isValidEmail_impl deps) em = Inr e
      \<and> userRepo_VerifyCredentials deps e pass = Inr user
      \<and> \<not> User_IsActive user \<longrightarrow>
      sessionRepo_Create_calls (snd (AuthenticateUser deps fresh em pass ip ua log))
        = sessionRepo_Create_calls log
      \<and> userRepo_Update_calls (snd (AuthenticateUser deps fresh em pass ip ua log))
        = userRepo_Update_calls log
      \<and> (\<exists>ev. published (snd (AuthenticateUser deps fresh em pass ip ua log))
                 = published log @ [ev]
            \<and> ev_Type ev = EventUserLoginFail
            \<and> ev_UserID ev = uuid_String (uuid_u user)
            \<and> reason_code ev = ''inactive_account''
            \<and> reason_code ev \<noteq> ''unknown'')
      \<and> fst (AuthenticateUser deps fresh em pass ip ua log)
          = Inl (if status user = UserStatusSuspended then ErrAccountSuspended
                 else ErrAccountInactive)
      \<and> (\<exists>m. fst (AuthenticateUser deps fresh em pass ip ua log) = Inl (AuthorizationError m)))
   \<and> (NewEmail (isValidEmail_impl deps) em = Inr e
        \<and> userRepo_VerifyCredentials deps e pass = Inl err \<longrightarrow>
        (\<exists>ev. published (snd (AuthenticateUser deps fresh em pass ip ua log))
                 = published log @ [ev]
            \<and> ev_Type ev = EventUserLoginFail
            \<and> reason_code ev = ''unknown'')
        \<and> fst (AuthenticateUser deps fresh em pass ip ua log) = Inl ErrInvalidCredentials)"
proof -
  have inactive:
    "NewEmail (isValidEmail_impl deps) em = Inr e
      \<and> userRepo_VerifyCredentials deps e pass = Inr user
      \<and> \<not> User_IsActive user \<longrightarrow>
      sessionRepo_Create_calls (snd (AuthenticateUser deps fresh em pass ip ua log))
        = sessionRepo_Create_calls log
      \<and> userRepo_Update_calls (snd (AuthenticateUser deps fresh em pass ip ua log))
        = userRepo_Update_calls log
      \<and> (\<exists>ev. published (snd (AuthenticateUser deps fresh em pass ip ua log))
                 = published log @ [ev]
            \<and> ev_Type ev = EventUserLoginFail
            \<and> ev_UserID ev = uuid_String (uuid_u user)
            \<and> reason_code ev = ''inactive_account''
            \<and> reason_code ev \<noteq> ''unknown'')
      \<and> fst (AuthenticateUser deps fresh em pass ip ua log)
          = Inl (if status user = UserStatusSuspended then ErrAccountSuspended
                 else ErrAccountInactive)
      \<and> (\<exists>m. fst (AuthenticateUser deps fresh em pass ip ua log) = Inl (AuthorizationError m))"
    using Authenticate_not_active [of deps em e pass user fresh ip ua log]
    by (simp add: UserLoginFailed_fields ErrAccountSuspended_def ErrAccountInactive_def)
  have mismatch:
    "NewEmail (isValidEmail_impl deps) em = Inr e
        \<and> userRepo_VerifyCredentials deps e pass = Inl err \<longrightarrow>
        (\<exists>ev. published (snd (AuthenticateUser deps fresh em pass ip ua log))
                 = published log @ [ev]
            \<and> ev_Type ev = EventUserLoginFail
            \<and> reason_code ev = ''unknown'')
        \<and> fst (AuthenticateUser deps fresh em pass ip ua log) = Inl ErrInvalidCredentials"
    using Authenticate_mismatch [of deps em e pass err fresh ip ua log]
    by (simp add: UserLoginFailed_fields)
  show ?thesis using inactive mismatch by blast
qed

text \<open>The suspended, the pending and the inactive account of the same user.\<close>

definition suspended_user :: User where
  "suspended_user = test_user\<lparr> status := UserStatusSuspended \<rparr>"

definition inactive_user :: User where
  "inactive_user = test_user\<lparr> status := UserStatusInactive \<rparr>"

lemma fixture_email: "NewEmail (isValidEmail_impl (mock_deps v)) ''test@example.com'' = Inr ''test@example.com''"
  by (simp add: NewEmail_def mock_deps_def fixture_strings)

theorem AuthenticateUser_not_active_witness:
  "NewEmail (isValidEmail_impl (mock_deps (\<lambda>e p. Inr suspended_user))) ''test@example.com''
     = Inr ''test@example.com''
   \<and> \<not> User_IsActive suspended_user
   \<and> sessionRepo_Create_calls
        (snd (AuthenticateUser (mock_deps (\<lambda>e p. Inr suspended_user)) test_fresh
                ''test@example.com'' ''pw'' ''127.0.0.1'' ''agent'' no_calls)) = []
   \<and> fst (AuthenticateUser (mock_deps (\<lambda>e p. Inr suspended_user)) test_fresh
            ''test@example.com'' ''pw'' ''127.0.0.1'' ''agent'' no_calls)
       = Inl ErrAccountSuspended
   \<and> fst (AuthenticateUser (mock_deps (\<lambda>e p. Inr inactive_user)) test_fresh
            ''test@example.com'' ''pw'' ''127.0.0.1'' ''agent'' no_calls)
       = Inl ErrAccountInactive
   \<and> fst (AuthenticateUser (mock_deps (\<lambda>e p. Inl ErrInvalidCredentials)) test_fresh
            ''test@example.com'' ''pw'' ''127.0.0.1'' ''agent'' no_calls)
       = Inl ErrInvalidCredentials"
proof -
  have facts: "\<not> User_IsActive suspended_user" "\<not> User_IsActive inactive_user"
    "status suspended_user = UserStatusSuspended"
    "status inactive_user \<noteq> UserStatusSuspended"
    "sessionRepo_Create_calls no_calls = []"
    by (simp_all add: User_IsActive_def suspended_user_def inactive_user_def test_user_def
        UserStatusSuspended_def UserStatusInactive_def UserStatusActive_def no_calls_def)
  have verify:
    "userRepo_VerifyCredentials (mock_deps (\<lambda>e p. Inr suspended_user)) ''test@example.com'' ''pw''
       = Inr suspended_user"
    "userRepo_VerifyCredentials (mock_deps (\<lambda>e p. Inr inactive_user)) ''test@example.com'' ''pw''
       = Inr inactive_user"
    "userRepo_VerifyCredentials (mock_deps (\<lambda>e p. Inl ErrInvalidCredentials))
       ''test@example.com'' ''pw'' = Inl ErrInvalidCredentials"
    by (simp_all add: mock_deps_def)
  show ?thesis
    using facts verify
      fixture_email [of "\<lambda>e p. Inr suspended_user"]
      fixture_email [of "\<lambda>e p. Inr inactive_user"]
      fixture_email [of "\<lambda>e p. Inl ErrInvalidCredentials"]
      AuthenticateUser_not_active
        [of "mock_deps (\<lambda>e p. Inr suspended_user)" "''test@example.com''" "''test@example.com''"
          "''pw''" suspended_user test_fresh "''127.0.0.1''" "''agent''" no_calls]
      AuthenticateUser_not_active
        [of "mock_deps (\<lambda>e p. Inr inactive_user)" "''test@example.com''" "''test@example.com''"
          "''pw''" inactive_user test_fresh "''127.0.0.1''" "''agent''" no_calls]
      AuthenticateUser_not_active
        [of "mock_deps (\<lambda>e p. Inl ErrInvalidCredentials)" "''test@example.com''"
          "''test@example.com''" "''pw''" _ test_fresh "''127.0.0.1''" "''agent''" no_calls
          ErrInvalidCredentials]
    by simp
qed

text \<open>
  Claim C4, as stated, asks for a reason code that distinguishes the account
  state. For the suspended and for the inactive account of the fixture the
  published events are the same, reason code included, while the statuses and the
  returned errors differ.
\<close>

theorem AuthenticateUser_reason_code_same_for_all_states:
  "status suspended_user \<noteq> status inactive_user
   \<and> map reason_code
        (published (snd (AuthenticateUser (mock_deps (\<lambda>e p. Inr suspended_user)) test_fresh
                            ''test@example.com'' ''pw'' ''127.0.0.1'' ''agent'' no_calls)))
       = [''inactive_account'']
   \<and> map reason_code
        (published (snd (AuthenticateUser (mock_deps (\<lambda>e p. Inr inactive_user)) test_fresh
                            ''test@example.com'' ''pw'' ''127.0.0.1'' ''agent'' no_calls)))
       = [''inactive_account'']
   \<and> published (snd (AuthenticateUser (mock_deps (\<lambda>e p. Inr suspended_user)) test_fresh
                        ''test@example.com'' ''pw'' ''127.0.0.1'' ''agent'' no_calls))
       = published (snd (AuthenticateUser (mock_deps (\<lambda>e p. Inr inactive_user)) test_fresh
                        ''test@example.com'' ''pw'' ''127.0.0.1'' ''agent'' no_calls))"
  by (simp add: AuthenticateUser_def mock_deps_def test_fresh_def no_calls_def NewEmail_def
      User_IsActive_def suspended_user_def inactive_user_def test_user_def
      UserStatusSuspended_def UserStatusInactive_def UserStatusActive_def publish_def Let_def
      UserLoginFailed_def NewUserEvent_def reason_code_def fixture_strings)

end
